theory Spec2Isabelle
  imports Main
begin

section \<open>Python values used by the game engine\<close>

text \<open>
  The exceptions the modelled code can raise. Every function that can raise returns
  \<open>error + 'a\<close>, with \<open>Inl\<close> for the exception.
\<close>

datatype error = KeyError | ValueError | TypeError | JSONDecodeError

text \<open>
  Client ids, method names and addresses are JSON scalars: strings or integers
  (\<open>Test.py\<close> creates clients whose ids are the integers \<open>range(NUM_CLIENTS)\<close>, the command
  line client passes a string).
\<close>

datatype ident = Str string | Num int

subsection \<open>Dictionaries\<close>

text \<open>
  A Python \<open>dict\<close> keeps its keys in insertion order and holds each key once: it is an
  association list with distinct keys. \<open>d[k] = v\<close> overwrites the value in place when the
  key is present and appends the pair otherwise.
\<close>

type_synonym ('k, 'v) dict = "('k \<times> 'v) list"

definition dict_get :: "('k, 'v) dict \<Rightarrow> 'k \<Rightarrow> 'v option" where
  "dict_get d k = map_of d k"

primrec dict_set :: "'k \<Rightarrow> 'v \<Rightarrow> ('k, 'v) dict \<Rightarrow> ('k, 'v) dict" where
  "dict_set k v [] = [(k, v)]"
| "dict_set k v (p # ps) = (if fst p = k then (k, v) # ps else p # dict_set k v ps)"

text \<open>\<open>d |= e\<close>: every pair of \<open>e\<close>, in order, is stored into \<open>d\<close>.\<close>

definition dict_merge :: "('k, 'v) dict \<Rightarrow> ('k, 'v) dict \<Rightarrow> ('k, 'v) dict" where
  "dict_merge d e = foldl (\<lambda>acc kv. dict_set (fst kv) (snd kv) acc) d e"

text \<open>\<open>choice(xs)\<close> with the random index drawn given as \<open>i\<close>.\<close>

definition choice :: "nat \<Rightarrow> 'a list \<Rightarrow> 'a" where
  "choice i xs = xs ! (i mod length xs)"

subsection \<open>Integers as decimal text\<close>

text \<open>\<open>str(n)\<close> for an integer, as the f-string \<open>f"{x}:{y}"\<close> formats its fields.\<close>

definition digit_char :: "nat \<Rightarrow> char" where
  "digit_char d = ''0123456789'' ! d"

function str_nat :: "nat \<Rightarrow> string" where
  "str_nat n = (if n < 10 then [digit_char n] else str_nat (n div 10) @ [digit_char (n mod 10)])"
  by pat_completeness auto
termination
  by (relation "measure id") auto

declare str_nat.simps [simp del]

definition py_str :: "int \<Rightarrow> string" where
  "py_str i = (if i < 0 then CHR ''-'' # str_nat (nat (- i)) else str_nat (nat i))"

text \<open>
  \<open>int(s)\<close> on a string: an optional sign followed by at least one decimal digit, and
  \<open>ValueError\<close> (here \<open>None\<close>) otherwise. Python also accepts surrounding white space and
  single underscores between digits; the engine never writes such text, and every theorem
  below that reads a position reads one that the engine wrote.
\<close>

definition digit_val :: "char \<Rightarrow> nat option" where
  "digit_val c = map_of (zip ''0123456789'' [0, 1, 2, 3, 4, 5, 6, 7, 8, 9]) c"

fun nat_of_digits :: "nat \<Rightarrow> string \<Rightarrow> nat option" where
  "nat_of_digits acc [] = Some acc"
| "nat_of_digits acc (c # cs) =
     (case digit_val c of None \<Rightarrow> None | Some d \<Rightarrow> nat_of_digits (10 * acc + d) cs)"

definition py_int :: "string \<Rightarrow> int option" where
  "py_int s =
     (case s of
        [] \<Rightarrow> None
      | c # cs \<Rightarrow>
          if c = CHR ''-'' then
            (if cs = [] then None else map_option (\<lambda>n. - int n) (nat_of_digits 0 cs))
          else if c = CHR ''+'' then
            (if cs = [] then None else map_option int (nat_of_digits 0 cs))
          else map_option int (nat_of_digits 0 s))"

text \<open>\<open>s.split(sep)\<close> for a one-character separator.\<close>

fun split_str :: "char \<Rightarrow> string \<Rightarrow> string list" where
  "split_str sep [] = [[]]"
| "split_str sep (c # cs) =
     (if c = sep then [] # split_str sep cs
      else (case split_str sep cs of [] \<Rightarrow> [[c]] | p # ps \<Rightarrow> (c # p) # ps))"

text \<open>\<open>f"{x}:{y}"\<close>.\<close>

definition fmt_pos :: "int \<Rightarrow> int \<Rightarrow> string" where
  "fmt_pos x y = py_str x @ '':'' @ py_str y"

text \<open>
  \<open>client_x, client_y = map(int, pos.split(':'))\<close>: \<open>ValueError\<close> when the text does not
  split into exactly two parts or a part is not an integer.
\<close>

definition parse_pos :: "string \<Rightarrow> error + (int \<times> int)" where
  "parse_pos s =
     (case split_str CHR '':'' s of
        [a, b] \<Rightarrow>
          (case py_int a of
             None \<Rightarrow> Inl ValueError
           | Some x \<Rightarrow> (case py_int b of None \<Rightarrow> Inl ValueError | Some y \<Rightarrow> Inr (x, y)))
      | _ \<Rightarrow> Inl ValueError)"

section \<open>The room engine (GameEngine.py)\<close>

record item =
  name :: string
  uses :: int
  use_message :: string
  empty_message :: string
  conflict_message :: string
  emptied_this_round :: bool

definition chest :: item where
  "chest = \<lparr>name = ''chest'', uses = 10,
     use_message = ''you put your hand in the box and get a surprise'',
     empty_message = ''you put your hand in an empty box'',
     conflict_message =
       ''you put your hand in the box and feel someone else'' @ [CHR 0x27] @ ''s hand'',
     emptied_this_round = False\<rparr>"

definition fire :: item where
  "fire = \<lparr>name = ''fire'', uses = 5,
     use_message = ''ow thats hot'',
     empty_message = ''someone cooked here'',
     conflict_message =
       ''you approach the fire but it is too crowded and you cannot find a spot'',
     emptied_this_round = False\<rparr>"

definition INTERACTIVE_ITEMS :: "item list" where
  "INTERACTIVE_ITEMS = [chest, fire]"

definition INTERACT_FAIL_MESSAGES :: "string list" where
  "INTERACT_FAIL_MESSAGES =
     [''you tried but there was nothing there'',
      ''you reach out and are disappointed'',
      ''you interact with the floor'',
      ''you tried to become one with the floor'',
      ''slow it down, not right now'']"

text \<open>
  The templates on which \<open>.format(collided_users=...)\<close> is called, each as the function of
  the text substituted for \<open>{collided_users}\<close>.
\<close>

definition INTERACT_ON_OTHER_USER :: "(string \<Rightarrow> string) list" where
  "INTERACT_ON_OTHER_USER =
     [\<lambda>u. ''You look at '' @ u @ '' awkwardly'',
      \<lambda>u. u @ '' stare at you, you cant help but notice their concerned looks'',
      \<lambda>u. u @ '' turn to look at you'',
      \<lambda>u. ''...hi!'',
      \<lambda>u. ''WHAT ARE YOU LOOKING AT?!?'']"

text \<open>
  The state of one \<open>Game\<close>: \<open>self.clients\<close> maps a client id to its position text,
  \<open>self.room\<close> maps a position text to the item in that cell.
\<close>

record game =
  clients :: "(ident, string) dict"
  room :: "(string, item) dict"

definition room_dimension :: int where
  "room_dimension = 8"

text \<open>
  \<open>Game.__init__\<close>, with the three random draws as arguments: \<open>randint(0, 8)\<close> twice and
  the index \<open>choice\<close> picks in \<open>INTERACTIVE_ITEMS\<close>. The dict literal stores the random cell
  first and the fixed chest at \<open>1:1\<close> second, so the chest wins where both are the same cell.
\<close>

definition new_game :: "nat \<Rightarrow> nat \<Rightarrow> nat \<Rightarrow> game" where
  "new_game rx ry rt =
     \<lparr>clients = [],
      room = dict_set ''1:1'' chest
               [(fmt_pos (int (rx mod 9)) (int (ry mod 9)), choice rt INTERACTIVE_ITEMS)]\<rparr>"

text \<open>The response dictionaries the handlers return.\<close>

datatype response =
    Client_pos ident string
  | Error string
  | Success string
  | Msg string
  | Room "(ident, string) dict"

definition add_client :: "ident \<Rightarrow> game \<Rightarrow> (error + response) \<times> game" where
  "add_client client g =
     (case dict_get (clients g) client of
        Some pos \<Rightarrow> (Inr (Client_pos client pos), g)
      | None \<Rightarrow>
          (let pos = fmt_pos (room_dimension div 2) (room_dimension div 2)
           in (Inr (Client_pos client pos), g\<lparr>clients := dict_set client pos (clients g)\<rparr>)))"

text \<open>
  \<open>Game._move\<close>. \<open>sorted((0, desired, D))[1]\<close> is the middle element of the sorted triple.
  \<open>self.clients[client]\<close> raises \<open>KeyError\<close> for an absent client (the callers check first).
\<close>

definition move :: "ident \<Rightarrow> int \<Rightarrow> int \<Rightarrow> game \<Rightarrow> (error + bool) \<times> game" where
  "move client x y g =
     (case dict_get (clients g) client of
        None \<Rightarrow> (Inl KeyError, g)
      | Some pos \<Rightarrow>
          (case parse_pos pos of
             Inl e \<Rightarrow> (Inl e, g)
           | Inr (client_x, client_y) \<Rightarrow>
               (let desired_x = client_x + x;
                    new_x = sort [0, desired_x, room_dimension] ! 1;
                    desired_y = client_y + y;
                    new_y = sort [0, desired_y, room_dimension] ! 1;
                    g' = g\<lparr>clients := dict_set client (fmt_pos new_x new_y) (clients g)\<rparr>
                in (Inr (new_x \<noteq> desired_x), g'))))"

definition up :: "ident \<Rightarrow> game \<Rightarrow> (error + response) \<times> game" where
  "up client g =
     (if dict_get (clients g) client = None then (Inr (Error ''client not in room''), g)
      else (case move client 0 1 g of
              (Inl e, g') \<Rightarrow> (Inl e, g')
            | (Inr _, g') \<Rightarrow> (Inr (Success ''move up''), g')))"

definition down :: "ident \<Rightarrow> game \<Rightarrow> (error + response) \<times> game" where
  "down client g =
     (if dict_get (clients g) client = None then (Inr (Error ''client not in room''), g)
      else (case move client 0 (- 1) g of
              (Inl e, g') \<Rightarrow> (Inl e, g')
            | (Inr _, g') \<Rightarrow> (Inr (Success ''move down''), g')))"

definition left :: "ident \<Rightarrow> game \<Rightarrow> (error + response) \<times> game" where
  "left client g =
     (if dict_get (clients g) client = None then (Inr (Error ''client not in room''), g)
      else (case move client (- 1) 0 g of
              (Inl e, g') \<Rightarrow> (Inl e, g')
            | (Inr b, g') \<Rightarrow>
                (Inr (Success (if b then ''exit left'' else ''move left'')), g')))"

definition right :: "ident \<Rightarrow> game \<Rightarrow> (error + response) \<times> game" where
  "right client g =
     (if dict_get (clients g) client = None then (Inr (Error ''client not in room''), g)
      else (case move client 1 0 g of
              (Inl e, g') \<Rightarrow> (Inl e, g')
            | (Inr b, g') \<Rightarrow>
                (Inr (Success (if b then ''exit right'' else ''move right'')), g')))"

text \<open>
  The text for \<open>{collided_users}\<close>. \<open>'and ' + matching_clients[-1]\<close> and \<open>str.join\<close> raise
  \<open>TypeError\<close> on an integer id.
\<close>

fun py_join :: "string \<Rightarrow> ident list \<Rightarrow> error + string" where
  "py_join sep [] = Inr []"
| "py_join sep (Num n # cs) = Inl TypeError"
| "py_join sep [Str s] = Inr s"
| "py_join sep (Str s # cs) =
     (case py_join sep cs of Inl e \<Rightarrow> Inl e | Inr r \<Rightarrow> Inr (s @ sep @ r))"

definition collided_users :: "ident list \<Rightarrow> error + string" where
  "collided_users matching_clients =
     (if length matching_clients > 1 then
        (case last matching_clients of
           Num n \<Rightarrow> Inl TypeError
         | Str s \<Rightarrow>
             (let mc = butlast matching_clients @ [Str (''and '' @ s)]
              in if length mc > 2 then py_join '', '' mc else py_join '' '' mc))
      else py_join '' '' matching_clients)"

text \<open>
  \<open>Game.interact\<close>. The two random indices that \<open>choice\<close> may draw are the argument
  \<open>draws\<close>: the first for \<open>INTERACT_FAIL_MESSAGES\<close>, the second for
  \<open>INTERACT_ON_OTHER_USER\<close>. The first statement, \<open>pos = self.clients[client]\<close>, has no
  membership test before it.
\<close>

definition interact :: "nat \<times> nat \<Rightarrow> ident \<Rightarrow> game \<Rightarrow> (error + response) \<times> game" where
  "interact draws client g =
     (case dict_get (clients g) client of
        None \<Rightarrow> (Inl KeyError, g)
      | Some pos \<Rightarrow>
          (case dict_get (room g) pos of
             Some it \<Rightarrow>
               (if \<not> emptied_this_round it then
                  (if uses it = 0 then (Inr (Msg (empty_message it)), g)
                   else
                     (let it1 = it\<lparr>uses := uses it - 1\<rparr>;
                          it2 = (if uses it1 = 0 then it1\<lparr>emptied_this_round := True\<rparr>
                                 else it1)
                      in (Inr (Msg (use_message it)),
                          g\<lparr>room := dict_set pos it2 (room g)\<rparr>)))
                else (Inr (Msg (conflict_message it)), g))
           | None \<Rightarrow>
               (let msg = choice (fst draws) INTERACT_FAIL_MESSAGES;
                    matching_clients =
                      filter (\<lambda>c. c \<noteq> client \<and> dict_get (clients g) c = Some pos)
                        (map fst (clients g))
                in if matching_clients \<noteq> [] then
                     (case collided_users matching_clients of
                        Inl e \<Rightarrow> (Inl e, g)
                      | Inr matching_clients_str \<Rightarrow>
                          (Inr (Msg (choice (snd draws) INTERACT_ON_OTHER_USER
                                       matching_clients_str)), g))
                   else (Inr (Msg msg), g))))"

definition clear_empty_markers :: "game \<Rightarrow> game" where
  "clear_empty_markers g =
     g\<lparr>room := map (\<lambda>(pos, interactable). (pos, interactable\<lparr>emptied_this_round := False\<rparr>))
                 (room g)\<rparr>"

text \<open>
  \<open>Game.get_room\<close>: the dict comprehension stores \<open>name \<mapsto> position\<close> for each cell in
  order, then \<open>|=\<close> stores every connected client over it.
\<close>

definition room_items_of :: "(string, item) dict \<Rightarrow> (ident, string) dict" where
  "room_items_of r = dict_merge [] (map (\<lambda>(key, val). (Str (name val), key)) r)"

definition get_room :: "(ident, string) dict \<Rightarrow> game \<Rightarrow> (error + response) \<times> game" where
  "get_room connected_clients g =
     (Inr (Room (dict_merge (room_items_of (room g)) connected_clients)), g)"

section \<open>The room server and its durability layer (GameServer.py)\<close>

text \<open>
  An incoming command is a JSON object whose values are strings or integers:
  \<open>{"method": ..., "client": ..., "broadcast_addr": ...}\<close>.
\<close>

type_synonym command = "(string, ident) dict"

text \<open>
  Files are modelled by what \<open>json.loads\<close> makes of each line. A line of the command log
  is either text that \<open>json.loads\<close> rejects (\<open>Junk\<close>) or the text of a command
  (\<open>Entry\<close>); \<open>json.dumps(incoming_command) + '\n'\<close> writes the line \<open>Entry incoming_command\<close>.
\<close>

datatype log_line = Junk | Entry command

text \<open>
  What \<open>json.loads\<close> returns for one line of a checkpoint: it raises \<open>JSONDecodeError\<close>,
  it returns a value that is not a dict, or it returns a dict.
\<close>

datatype 'a loaded = Undecodable | Not_dict | Dict 'a

text \<open>
  A checkpoint file is absent, has a number of lines other than two, or has two lines: the
  first is read as the room, the second as the client directory.
\<close>

datatype ckpt_file =
    Missing
  | Wrong_line_count
  | Two_lines "((string, item) dict) loaded" "((ident, string) dict) loaded"

text \<open>File operations, recorded in the order the server performs them.\<close>

datatype io_event =
    Log_write log_line
  | Log_flush
  | Log_fsync
  | Ckpt_new_write ckpt_file
  | Ckpt_replace
  | Log_truncate

text \<open>
  The state of a \<open>GameServer\<close> whose engine is a \<open>Game\<close> (every \<open>isinstance(self.engine,
  Game)\<close> test is true), together with the files it owns: \<open>log_file\<close> is the content of the
  command log, \<open>ckpt\<close> that of \<open>name.ckpt\<close> and \<open>ckpt_new\<close> that of \<open>name.ckpt.new\<close>.
\<close>

record server =
  engine :: game
  log_file :: "log_line list"
  log_length :: nat
  ckpt :: ckpt_file
  ckpt_new :: ckpt_file
  connections :: "(ident, ident) dict"
  socket_id_map :: "(nat, ident) dict"
  lifetime_stats :: "(string, nat) dict"
  io :: "io_event list"

text \<open>
  \<open>json.dumps\<close> writes every key of a dict as a string, so a client directory read back
  from a checkpoint has the text of each id as its key.
\<close>

fun ident_text :: "ident \<Rightarrow> string" where
  "ident_text (Str s) = s"
| "ident_text (Num n) = py_str n"

definition dumped_clients :: "(ident, string) dict \<Rightarrow> (ident, string) dict" where
  "dumped_clients cl = dict_merge [] (map (\<lambda>(k, v). (Str (ident_text k), v)) cl)"

definition truncate_log :: "server \<Rightarrow> server" where
  "truncate_log s = s\<lparr>log_file := [], log_length := 0, io := io s @ [Log_truncate]\<rparr>"

definition update_ckpt :: "server \<Rightarrow> server" where
  "update_ckpt s =
     (let written = Two_lines (Dict (room (engine s))) (Dict (dumped_clients (clients (engine s))));
          s1 = s\<lparr>ckpt_new := written, io := io s @ [Ckpt_new_write written]\<rparr>;
          s2 = s1\<lparr>ckpt := ckpt_new s1, ckpt_new := Missing, io := io s1 @ [Ckpt_replace]\<rparr>
      in truncate_log s2)"

text \<open>
  \<open>GameServer._load_server\<close>. Only \<open>FileNotFoundError\<close> is caught around the reads, so a
  \<open>JSONDecodeError\<close> of \<open>json.loads\<close> leaves the function (and the constructor).
\<close>

definition read_ckpt ::
  "ckpt_file \<Rightarrow> error + ((string, item) dict) loaded \<times> ((ident, string) dict) loaded" where
  "read_ckpt f =
     (case f of
        Missing \<Rightarrow> Inr (Dict [], Dict [])
      | Wrong_line_count \<Rightarrow> Inr (Dict [], Dict [])
      | Two_lines ckpt_room ckpt_client \<Rightarrow>
          (if ckpt_room = Undecodable then Inl JSONDecodeError
           else if ckpt_client = Undecodable then Inl JSONDecodeError
           else Inr (ckpt_room, ckpt_client)))"

definition load_server :: "server \<Rightarrow> error + server" where
  "load_server s =
     (case read_ckpt (ckpt s) of
        Inl e \<Rightarrow> Inl e
      | Inr (Dict new_room, Dict new_clients) \<Rightarrow>
          (let s1 = (if new_room \<noteq> [] then s\<lparr>engine := (engine s)\<lparr>room := new_room\<rparr>\<rparr> else s);
               s2 = (if new_clients \<noteq> [] then s1\<lparr>engine := (engine s1)\<lparr>clients := new_clients\<rparr>\<rparr>
                     else s1)
           in Inr s2)
      | Inr _ \<Rightarrow> Inr s)"

text \<open>The keys of \<open>Game.command_map\<close>.\<close>

definition command_map_keys :: "string list" where
  "command_map_keys =
     [''add_client'', ''up'', ''down'', ''left'', ''right'', ''interact'', ''get_room'']"

text \<open>\<open>self.engine.command_map[method](client)\<close> for the methods other than \<open>get_room\<close>.\<close>

definition command_map ::
  "nat \<times> nat \<Rightarrow> string \<Rightarrow> ident \<Rightarrow> game \<Rightarrow> (error + response) \<times> game" where
  "command_map draws m =
     (if m = ''add_client'' then add_client
      else if m = ''up'' then up
      else if m = ''down'' then down
      else if m = ''left'' then left
      else if m = ''right'' then right
      else interact draws)"

text \<open>
  \<open>{c: self.engine.clients[c] for c in self.socket_id_map.values()}\<close>: \<open>KeyError\<close> for a
  connection whose client is not in the engine's directory.
\<close>

fun alive_clients ::
  "(ident, string) dict \<Rightarrow> ident list \<Rightarrow> (ident, string) dict \<Rightarrow> error + (ident, string) dict" where
  "alive_clients cl [] acc = Inr acc"
| "alive_clients cl (c # cs) acc =
     (case dict_get cl c of
        None \<Rightarrow> Inl KeyError
      | Some pos \<Rightarrow> alive_clients cl cs (dict_set c pos acc))"

definition dispatch ::
  "nat \<times> nat \<Rightarrow> string \<Rightarrow> ident \<Rightarrow> server \<Rightarrow> (error + response) \<times> game" where
  "dispatch draws m client s =
     (if m = ''get_room'' then
        (case alive_clients (clients (engine s)) (map snd (socket_id_map s)) [] of
           Inl e \<Rightarrow> (Inl e, engine s)
         | Inr alive \<Rightarrow> get_room alive (engine s))
      else command_map draws m client (engine s))"

text \<open>The error counter kept in \<open>self.lifetime_stats\<close>.\<close>

definition count_error :: "response \<Rightarrow> server \<Rightarrow> server" where
  "count_error return_message s =
     (case return_message of
        Error e \<Rightarrow>
          (case dict_get (lifetime_stats s) ''errors'' of
             Some n \<Rightarrow> s\<lparr>lifetime_stats := dict_set ''errors'' (n + 1) (lifetime_stats s)\<rparr>
           | None \<Rightarrow> s\<lparr>lifetime_stats := dict_set ''errors'' 1 (lifetime_stats s)\<rparr>)
      | _ \<Rightarrow> s)"

text \<open>The block of \<open>_parse_command\<close> that appends the command to the log.\<close>

definition append_log :: "command \<Rightarrow> server \<Rightarrow> server" where
  "append_log incoming_command s =
     (let s1 = s\<lparr>log_file := log_file s @ [Entry incoming_command],
                 io := io s @ [Log_write (Entry incoming_command), Log_flush, Log_fsync],
                 log_length := log_length s + 1\<rparr>
      in if log_length s1 > 100 then update_ckpt s1 else s1)"

text \<open>
  The block of \<open>_parse_command\<close> that records \<open>incoming_command['broadcast_addr']\<close> for the
  client when the command has one.
\<close>

definition note_broadcast_addr :: "command \<Rightarrow> ident \<Rightarrow> server \<Rightarrow> server" where
  "note_broadcast_addr incoming_command client s =
     (case dict_get incoming_command ''broadcast_addr'' of
        None \<Rightarrow> s
      | Some addr \<Rightarrow> s\<lparr>connections := dict_set client addr (connections s)\<rparr>)"

definition unknown_method :: "ident \<Rightarrow> string" where
  "unknown_method m =
     ''method '' @ ident_text m @ '' does not exist for engine: <class '' @ [CHR 0x27]
       @ ''GameEngine.Game'' @ [CHR 0x27] @ ''>''"

text \<open>
  \<open>GameServer._parse_command\<close>. An exception of the handler leaves the function before
  the log is written; the state reached until then is returned with it.
\<close>

definition parse_command ::
  "nat \<times> nat \<Rightarrow> command \<Rightarrow> bool \<Rightarrow> server \<Rightarrow> (error + response) \<times> server" where
  "parse_command draws incoming_command read_from_log s =
     (case (dict_get incoming_command ''method'', dict_get incoming_command ''client'') of
        (Some method, Some client) \<Rightarrow>
          (let s1 = note_broadcast_addr incoming_command client s
           in case method of
                Str m \<Rightarrow>
                  (if m \<notin> set command_map_keys then
                     (let return_message = Error (unknown_method method)
                      in (Inr return_message, count_error return_message s1))
                   else
                     (case dispatch draws m client s1 of
                        (Inl e, g) \<Rightarrow> (Inl e, s1\<lparr>engine := g\<rparr>)
                      | (Inr return_message, g) \<Rightarrow>
                          (let s2 = s1\<lparr>engine := g\<rparr>;
                               s3 = (if \<not> read_from_log then append_log incoming_command s2
                                     else s2)
                           in (Inr return_message, count_error return_message s3))))
              | Num n \<Rightarrow>
                  (let return_message = Error (unknown_method method)
                   in (Inr return_message, count_error return_message s1)))
      | _ \<Rightarrow>
          (let return_message = Error ''malformed incomming command''
           in (Inr return_message, count_error return_message s)))"

text \<open>
  \<open>GameServer._load_from_log\<close>: the lines are read once, then each is parsed and handed
  to \<open>self._parse_command(jdata)\<close>, whose \<open>read_from_log\<close> argument is left at its default
  \<open>False\<close>. Every exception of the loop body is caught and the line dropped. \<open>rnd i\<close> are the
  random draws available to line \<open>i\<close>.
\<close>

fun replay :: "(nat \<Rightarrow> nat \<times> nat) \<Rightarrow> nat \<Rightarrow> log_line list \<Rightarrow> server \<Rightarrow> server" where
  "replay rnd i [] s = s"
| "replay rnd i (Junk # log_lines) s = replay rnd (Suc i) log_lines s"
| "replay rnd i (Entry jdata # log_lines) s =
     replay rnd (Suc i) log_lines (snd (parse_command (rnd i) jdata False s))"

definition load_from_log :: "(nat \<Rightarrow> nat \<times> nat) \<Rightarrow> server \<Rightarrow> server" where
  "load_from_log rnd s = replay rnd 0 (log_file s) s"

text \<open>
  \<open>GameServer.__init__\<close> as far as the engine and the files are concerned: a new engine,
  \<open>log_length = 0\<close>, an empty connection table and the files as they are on disk; then the
  checkpoint and the log are loaded.
\<close>

definition new_server ::
  "nat \<Rightarrow> nat \<Rightarrow> nat \<Rightarrow> log_line list \<Rightarrow> ckpt_file \<Rightarrow> ckpt_file \<Rightarrow> server" where
  "new_server rx ry rt log_on_disk ckpt_on_disk ckpt_new_on_disk =
     \<lparr>engine = new_game rx ry rt, log_file = log_on_disk, log_length = 0,
      ckpt = ckpt_on_disk, ckpt_new = ckpt_new_on_disk, connections = [],
      socket_id_map = [], lifetime_stats = [], io = []\<rparr>"

definition startup ::
  "nat \<Rightarrow> nat \<Rightarrow> nat \<Rightarrow> (nat \<Rightarrow> nat \<times> nat) \<Rightarrow> log_line list \<Rightarrow> ckpt_file \<Rightarrow> ckpt_file
    \<Rightarrow> error + server" where
  "startup rx ry rt rnd log_on_disk ckpt_on_disk ckpt_new_on_disk =
     (case load_server (new_server rx ry rt log_on_disk ckpt_on_disk ckpt_new_on_disk) of
        Inl e \<Rightarrow> Inl e
      | Inr s1 \<Rightarrow> Inr (load_from_log rnd s1))"

text \<open>The message a client sends: \<open>{'method': m, 'client': c}\<close> (GameClient.py).\<close>

definition request :: "string \<Rightarrow> ident \<Rightarrow> command" where
  "request m c = [(''method'', Str m), (''client'', c)]"

section \<open>Notions used to state the properties\<close>

text \<open>
  A run of engine commands, each a method name with its client: the handlers are called in
  order, and an exception ends the run.
\<close>

fun run_commands :: "nat \<times> nat \<Rightarrow> (string \<times> ident) list \<Rightarrow> game \<Rightarrow> error + game" where
  "run_commands draws [] g = Inr g"
| "run_commands draws ((m, c) # cmds) g =
     (case command_map draws m c g of
        (Inl e, g') \<Rightarrow> Inl e
      | (Inr return_message, g') \<Rightarrow> run_commands draws cmds g')"

text \<open>
  Every client's position is the text \<open>x:y\<close> of a cell of the room, \<open>0 \<le> x, y \<le> 8\<close>.
\<close>

definition in_room :: "game \<Rightarrow> bool" where
  "in_room g =
     list_all (\<lambda>(c, pos). case parse_pos pos of
                            Inl e \<Rightarrow> False
                          | Inr (x, y) \<Rightarrow> 0 \<le> x \<and> x \<le> 8 \<and> 0 \<le> y \<and> y \<le> 8 \<and> pos = fmt_pos x y)
       (clients g)"

text \<open>The lines written to the command log between two states of the server.\<close>

definition logged_lines :: "server \<Rightarrow> server \<Rightarrow> log_line list" where
  "logged_lines s s' = [l. Log_write l \<leftarrow> drop (length (io s)) (io s')]"

section \<open>Facts about dictionaries and position text\<close>

lemma dict_get_set: "dict_get (dict_set k v d) k' = (if k' = k then Some v else dict_get d k')"
  by (induction d) (auto simp: dict_get_def)

lemma dict_set_same: "dict_get d k = Some v \<Longrightarrow> dict_set k v d = d"
  by (induction d) (auto simp: dict_get_def split: if_splits)

lemma keys_dict_set: "fst ` set (dict_set k v d) = insert k (fst ` set d)"
  by (induction d) auto

lemma distinct_dict_set: "distinct (map fst d) \<Longrightarrow> distinct (map fst (dict_set k v d))"
  by (induction d) (auto simp: keys_dict_set)

lemma dict_set_absent: "dict_get d k = None \<Longrightarrow> dict_set k v d = d @ [(k, v)]"
  by (induction d) (auto simp: dict_get_def split: if_splits)

lemma digit_val_digit_char: "d < 10 \<Longrightarrow> digit_val (digit_char d) = Some d"
proof -
  assume "d < 10"
  then have "d \<in> {0,1,2,3,4,5,6,7,8,9}" by auto
  then show ?thesis
    by (auto simp: digit_val_def digit_char_def)
qed

lemma nat_of_digits_snoc:
  "nat_of_digits acc (cs @ [c]) =
     (case nat_of_digits acc cs of None \<Rightarrow> None
      | Some m \<Rightarrow> map_option (\<lambda>d. 10 * m + d) (digit_val c))"
  by (induction cs arbitrary: acc) (auto split: option.splits)

lemma nat_of_digits_str_nat: "nat_of_digits 0 (str_nat n) = Some n"
proof (induction n rule: str_nat.induct)
  case (1 n)
  show ?case
  proof (cases "n < 10")
    case True
    then show ?thesis
      by (subst str_nat.simps) (simp add: digit_val_digit_char)
  next
    case False
    with 1 have "nat_of_digits 0 (str_nat (n div 10)) = Some (n div 10)" by simp
    with False show ?thesis
      by (subst str_nat.simps) (simp add: nat_of_digits_snoc digit_val_digit_char)
  qed
qed

lemma digit_char_cases: "d < 10 \<Longrightarrow> digit_char d \<in> set ''0123456789''"
  unfolding digit_char_def by (rule nth_mem) simp

lemma set_str_nat: "set (str_nat n) \<subseteq> set ''0123456789''"
proof (induction n rule: str_nat.induct)
  case (1 n)
  show ?case
  proof (cases "n < 10")
    case True
    then show ?thesis using digit_char_cases [of n]
      by (subst str_nat.simps) simp
  next
    case False
    with 1 have "set (str_nat (n div 10)) \<subseteq> set ''0123456789''" by simp
    with False show ?thesis using digit_char_cases [of "n mod 10"]
      by (subst str_nat.simps) simp
  qed
qed

lemma str_nat_nonempty: "str_nat n \<noteq> []"
  by (subst str_nat.simps) simp

lemma py_int_str_nat: "py_int (str_nat n) = Some (int n)"
proof -
  obtain c cs where e: "str_nat n = c # cs"
    using str_nat_nonempty [of n] by (cases "str_nat n") auto
  have "c \<in> set ''0123456789''" using set_str_nat [of n] e by auto
  then have "c \<noteq> CHR ''-''" "c \<noteq> CHR ''+''" by auto
  then show ?thesis using nat_of_digits_str_nat [of n] e
    by (simp add: py_int_def)
qed

lemma py_int_py_str: "py_int (py_str i) = Some i"
proof (cases "i < 0")
  case True
  then show ?thesis using nat_of_digits_str_nat [of "nat (- i)"] str_nat_nonempty [of "nat (- i)"]
    by (simp add: py_str_def py_int_def)
next
  case False
  then show ?thesis using py_int_str_nat [of "nat i"]
    by (simp add: py_str_def)
qed

lemma colon_py_str: "CHR '':'' \<notin> set (py_str i)"
  using set_str_nat [of "nat i"] set_str_nat [of "nat (- i)"]
  by (auto simp: py_str_def)

lemma split_str_none: "sep \<notin> set a \<Longrightarrow> split_str sep a = [a]"
  by (induction a) auto

lemma split_str_once:
  "sep \<notin> set a \<Longrightarrow> sep \<notin> set b \<Longrightarrow> split_str sep (a @ sep # b) = [a, b]"
  by (induction a) (auto simp: split_str_none)

lemma parse_fmt_pos: "parse_pos (fmt_pos x y) = Inr (x, y)"
  using split_str_once [OF colon_py_str [of x] colon_py_str [of y]]
  by (simp add: parse_pos_def fmt_pos_def py_int_py_str)

lemma median_clamp: "sort [0, d, room_dimension] ! 1 = max 0 (min d room_dimension)"
  by (auto simp: room_dimension_def)

lemma py_str_digit: "0 \<le> i \<Longrightarrow> i < 10 \<Longrightarrow> py_str i = [digit_char (nat i)]"
  by (simp add: py_str_def str_nat.simps)

lemma center: "fmt_pos (room_dimension div 2) (room_dimension div 2) = ''4:4''"
  by (simp add: fmt_pos_def room_dimension_def py_str_def str_nat.simps digit_char_def)

lemma add_client_new:
  "dict_get (clients g) c = None \<Longrightarrow>
     add_client c g = (Inr (Client_pos c ''4:4''), g\<lparr>clients := clients g @ [(c, ''4:4'')]\<rparr>)"
  by (simp add: add_client_def center dict_set_absent Let_def)

lemma add_client_old:
  "dict_get (clients g) c = Some pos \<Longrightarrow> add_client c g = (Inr (Client_pos c pos), g)"
  by (simp add: add_client_def)

lemma dict_get_append_new: "dict_get d k = None \<Longrightarrow> dict_get (d @ [(k, v)]) k = Some v"
  by (simp add: dict_get_def map_add_Some_iff)

lemma parse_command_add_client:
  "parse_command draws (request ''add_client'' c) False s =
     (fst (add_client c (engine s)),
      append_log (request ''add_client'' c) (s\<lparr>engine := snd (add_client c (engine s))\<rparr>))"
  by (cases "dict_get (clients (engine s)) c")
    (simp_all add: parse_command_def request_def dict_get_def command_map_keys_def dispatch_def
      command_map_def add_client_def Let_def count_error_def note_broadcast_addr_def)

lemma load_server_ignores:
  "load_server (s\<lparr>ckpt := Wrong_line_count\<rparr>) = Inr (s\<lparr>ckpt := Wrong_line_count\<rparr>)"
  "load_server (s\<lparr>ckpt := Missing\<rparr>) = Inr (s\<lparr>ckpt := Missing\<rparr>)"
  "c \<noteq> Undecodable \<Longrightarrow>
     load_server (s\<lparr>ckpt := Two_lines Not_dict c\<rparr>) = Inr (s\<lparr>ckpt := Two_lines Not_dict c\<rparr>)"
  "r \<noteq> Undecodable \<Longrightarrow>
     load_server (s\<lparr>ckpt := Two_lines r Not_dict\<rparr>) = Inr (s\<lparr>ckpt := Two_lines r Not_dict\<rparr>)"
  by (auto simp add: load_server_def read_ckpt_def split: loaded.splits)

lemma flag_already_clear:
  "\<not> emptied_this_round it \<Longrightarrow> it\<lparr>uses := u, emptied_this_round := False\<rparr> = it\<lparr>uses := u\<rparr>"
  by (cases it) simp

lemma move_written:
  assumes "dict_get (clients g) c = Some (fmt_pos x y)"
  shows "move c dx dy g =
     (Inr (max 0 (min (x + dx) 8) \<noteq> x + dx),
      g\<lparr>clients := dict_set c (fmt_pos (max 0 (min (x + dx) 8)) (max 0 (min (y + dy) 8)))
                      (clients g)\<rparr>)"
  using assms by (simp add: move_def parse_fmt_pos median_clamp Let_def room_dimension_def)

lemma fmt_0_8: "fmt_pos 0 8 = ''0:8''"
  by (simp add: fmt_pos_def py_str_def str_nat.simps digit_char_def)

lemma set_dict_set: "set (dict_set k v d) \<subseteq> insert (k, v) (set d)"
  by (induction d) auto

lemma in_room_dict_set:
  assumes "in_room g" "0 \<le> x" "x \<le> 8" "0 \<le> y" "y \<le> 8"
  shows "in_room (g\<lparr>clients := dict_set c (fmt_pos x y) (clients g)\<rparr>)"
  using assms set_dict_set [of c "fmt_pos x y" "clients g"]
  by (auto simp: in_room_def list_all_iff parse_fmt_pos)

lemma in_room_member:
  assumes "in_room g" "(c, pos) \<in> set (clients g)"
  shows "\<exists>x y. parse_pos pos = Inr (x, y) \<and> pos = fmt_pos x y
           \<and> 0 \<le> x \<and> x \<le> 8 \<and> 0 \<le> y \<and> y \<le> 8"
proof -
  from assms have h: "case parse_pos pos of Inl e \<Rightarrow> False
     | Inr (x, y) \<Rightarrow> 0 \<le> x \<and> x \<le> 8 \<and> 0 \<le> y \<and> y \<le> 8 \<and> pos = fmt_pos x y"
    by (auto simp: in_room_def list_all_iff)
  show ?thesis
  proof (cases "parse_pos pos")
    case (Inl e)
    with h show ?thesis by simp
  next
    case (Inr p)
    obtain x y where "p = (x, y)" by (cases p)
    with h Inr show ?thesis by auto
  qed
qed

lemma in_room_lookup:
  assumes "in_room g" "dict_get (clients g) c = Some pos"
  shows "\<exists>x y. pos = fmt_pos x y \<and> 0 \<le> x \<and> x \<le> 8 \<and> 0 \<le> y \<and> y \<le> 8"
proof -
  from assms(2) have "(c, pos) \<in> set (clients g)"
    by (simp add: dict_get_def map_of_SomeD)
  from in_room_member [OF assms(1) this] show ?thesis by blast
qed

lemma in_room_step:
  assumes "in_room g" "m \<in> {''add_client'', ''up'', ''down'', ''left'', ''right''}"
  shows "\<exists>r g'. command_map draws m c g = (Inr r, g') \<and> in_room g'"
proof (cases "dict_get (clients g) c")
  case None
  have "in_room (g\<lparr>clients := dict_set c (fmt_pos 4 4) (clients g)\<rparr>)"
    by (rule in_room_dict_set [OF assms(1)]) simp_all
  with None assms show ?thesis
    by (auto simp: command_map_def add_client_def up_def down_def left_def right_def Let_def
        room_dimension_def)
next
  case (Some pos)
  from in_room_lookup [OF assms(1) Some] obtain x y where
    p: "pos = fmt_pos x y" and b: "0 \<le> x" "x \<le> 8" "0 \<le> y" "y \<le> 8" by blast
  from Some p have w: "dict_get (clients g) c = Some (fmt_pos x y)" by simp
  have k: "in_room (g\<lparr>clients := dict_set c (fmt_pos (max 0 (min (x + dx) 8)) (max 0 (min (y + dy) 8)))
                      (clients g)\<rparr>)" for dx dy
    by (rule in_room_dict_set [OF assms(1)]) simp_all
  from assms(2) consider "m = ''add_client''" | "m = ''up''" | "m = ''down''" | "m = ''left''"
    | "m = ''right''" by blast
  then show ?thesis
  proof cases
    case 1
    with Some assms(1) show ?thesis by (simp add: command_map_def add_client_def)
  next
    case 2
    with w k [of 0 1] show ?thesis
      by (simp add: command_map_def up_def move_written [OF w])
  next
    case 3
    with w k [of 0 "- 1"] show ?thesis
      by (simp add: command_map_def down_def move_written [OF w])
  next
    case 4
    with w k [of "- 1" 0] show ?thesis
      by (simp add: command_map_def left_def move_written [OF w])
  next
    case 5
    with w k [of 1 0] show ?thesis
      by (simp add: command_map_def right_def move_written [OF w])
  qed
qed

lemma in_room_run:
  assumes "in_room g" "\<forall>(m, c) \<in> set cmds. m \<in> {''add_client'', ''up'', ''down'', ''left'', ''right''}"
  shows "\<exists>g'. run_commands draws cmds g = Inr g' \<and> in_room g'"
  using assms
proof (induction cmds arbitrary: g)
  case Nil
  then show ?case by simp
next
  case (Cons a cmds)
  obtain m c where a: "a = (m, c)" by (cases a)
  with Cons.prems have "m \<in> {''add_client'', ''up'', ''down'', ''left'', ''right''}" by simp
  from in_room_step [OF Cons.prems(1) this, of draws c] obtain r g1 where
    s: "command_map draws m c g = (Inr r, g1)" and i: "in_room g1" by blast
  from Cons.prems have "\<forall>(m, c) \<in> set cmds. m \<in> {''add_client'', ''up'', ''down'', ''left'', ''right''}"
    by simp
  from Cons.IH [OF i this] a s show ?case by simp
qed

section \<open>Facts about the server\<close>

lemma count_error_frame:
  "io (count_error r s) = io s" "log_file (count_error r s) = log_file s"
  "log_length (count_error r s) = log_length s" "ckpt (count_error r s) = ckpt s"
  "ckpt_new (count_error r s) = ckpt_new s" "engine (count_error r s) = engine s"
  by (simp_all add: count_error_def split: response.splits option.splits)

lemma note_broadcast_addr_frame:
  "io (note_broadcast_addr cmd c s) = io s" "log_file (note_broadcast_addr cmd c s) = log_file s"
  "log_length (note_broadcast_addr cmd c s) = log_length s"
  "ckpt (note_broadcast_addr cmd c s) = ckpt s"
  "ckpt_new (note_broadcast_addr cmd c s) = ckpt_new s"
  "engine (note_broadcast_addr cmd c s) = engine s"
  by (simp_all add: note_broadcast_addr_def split: option.splits)

lemma parse_command_dispatched:
  assumes "dict_get cmd ''method'' = Some (Str m)" "m \<in> set command_map_keys"
    "dict_get cmd ''client'' = Some c"
    "dispatch draws m c (note_broadcast_addr cmd c s) = (Inr resp, g)"
  shows "parse_command draws cmd False s =
     (Inr resp, count_error resp (append_log cmd ((note_broadcast_addr cmd c s)\<lparr>engine := g\<rparr>)))"
  using assms by (simp add: parse_command_def Let_def)

lemma parse_command_raised:
  assumes "dict_get cmd ''method'' = Some (Str m)" "m \<in> set command_map_keys"
    "dict_get cmd ''client'' = Some c"
    "dispatch draws m c (note_broadcast_addr cmd c s) = (Inl e, g)"
  shows "parse_command draws cmd rfl s = (Inl e, (note_broadcast_addr cmd c s)\<lparr>engine := g\<rparr>)"
  using assms by (simp add: parse_command_def Let_def)

lemma parse_command_refused:
  assumes "\<not> (\<exists>m c. dict_get cmd ''method'' = Some (Str m) \<and> m \<in> set command_map_keys
              \<and> dict_get cmd ''client'' = Some c)"
  shows "\<exists>msg s1. parse_command draws cmd rfl s = (Inr (Error msg), count_error (Error msg) s1)
           \<and> io s1 = io s \<and> log_file s1 = log_file s \<and> log_length s1 = log_length s"
proof (cases "dict_get cmd ''method''")
  case None
  then show ?thesis by (auto simp: parse_command_def Let_def)
next
  case (Some meth)
  show ?thesis
  proof (cases "dict_get cmd ''client''")
    case None
    with Some show ?thesis by (auto simp: parse_command_def Let_def)
  next
    case (Some c)
    show ?thesis
    proof (cases meth)
      case (Str m)
      with assms Some \<open>dict_get cmd ''method'' = Some meth\<close> have "m \<notin> set command_map_keys"
        by auto
      with Str Some \<open>dict_get cmd ''method'' = Some meth\<close> show ?thesis
        by (auto simp: parse_command_def Let_def note_broadcast_addr_frame)
    next
      case (Num n)
      with Some \<open>dict_get cmd ''method'' = Some meth\<close> show ?thesis
        by (auto simp: parse_command_def Let_def note_broadcast_addr_frame)
    qed
  qed
qed

lemma append_log_io:
  "io (append_log cmd s) = io s @ [Log_write (Entry cmd), Log_flush, Log_fsync] @
     (if 100 \<le> log_length s
      then [Ckpt_new_write (Two_lines (Dict (room (engine s))) (Dict (dumped_clients (clients (engine s))))),
            Ckpt_replace, Log_truncate]
      else [])"
  by (simp add: append_log_def update_ckpt_def truncate_log_def Let_def)

lemma append_log_files:
  "100 \<le> log_length s \<Longrightarrow>
     ckpt (append_log cmd s) = Two_lines (Dict (room (engine s))) (Dict (dumped_clients (clients (engine s))))
     \<and> ckpt_new (append_log cmd s) = Missing \<and> log_file (append_log cmd s) = []
     \<and> log_length (append_log cmd s) = 0"
  "log_length s < 100 \<Longrightarrow>
     ckpt (append_log cmd s) = ckpt s \<and> ckpt_new (append_log cmd s) = ckpt_new s
     \<and> log_file (append_log cmd s) = log_file s @ [Entry cmd]
     \<and> log_length (append_log cmd s) = log_length s + 1"
  "engine (append_log cmd s) = engine s"
  by (simp_all add: append_log_def update_ckpt_def truncate_log_def Let_def)

lemma parse_command_get_room_fresh:
  "parse_command draws (request ''get_room'' c) False (new_server rx ry rt [] Missing Missing) =
     (Inr (Room (room_items_of (room (new_game rx ry rt)))),
      append_log (request ''get_room'' c) (new_server rx ry rt [] Missing Missing))"
  by (simp add: parse_command_def request_def dict_get_def command_map_keys_def dispatch_def
      new_server_def get_room_def dict_merge_def note_broadcast_addr_def count_error_def Let_def)

lemma parse_command_up_fresh:
  "parse_command draws (request ''up'' c) False (new_server rx ry rt [] Missing Missing) =
     (Inr (Error ''client not in room''),
      count_error (Error ''client not in room'')
        (append_log (request ''up'' c) (new_server rx ry rt [] Missing Missing)))"
  by (simp add: parse_command_def request_def dict_get_def command_map_keys_def dispatch_def
      new_server_def note_broadcast_addr_def Let_def command_map_def up_def new_game_def)

lemma parse_command_unknown:
  "m \<notin> set command_map_keys \<Longrightarrow>
     parse_command draws (request m c) rfl s =
       (Inr (Error (unknown_method (Str m))), count_error (Error (unknown_method (Str m))) s)"
  by (simp add: parse_command_def request_def dict_get_def note_broadcast_addr_def Let_def)

lemma clients_new_game: "clients (new_game rx ry rt) = []"
  by (simp add: new_game_def)

lemma dumped_one: "dumped_clients [(Num 7, ''4:4'')] = [(Str ''7'', ''4:4'')]"
  by (simp add: dumped_clients_def dict_merge_def py_str_def str_nat.simps digit_char_def)

lemma dict_merge_Cons: "dict_merge d (x # e) = dict_merge (dict_set (fst x) (snd x) d) e"
  by (simp add: dict_merge_def)

lemma dict_get_merge:
  "dict_get (dict_merge d e) k =
     (case map_of (rev e) k of Some v \<Rightarrow> Some v | None \<Rightarrow> dict_get d k)"
proof (induction e arbitrary: d)
  case Nil
  then show ?case by (simp add: dict_merge_def)
next
  case (Cons x e)
  obtain k' v' where x: "x = (k', v')" by (cases x)
  show ?case
    by (simp add: dict_merge_Cons Cons.IH dict_get_set x map_add_def split: option.splits)
qed

lemma distinct_dict_merge:
  "distinct (map fst d) \<Longrightarrow> distinct (map fst (dict_merge d e))"
proof (induction e arbitrary: d)
  case Nil
  then show ?case by (simp add: dict_merge_def)
next
  case (Cons x e)
  from Cons.IH [OF distinct_dict_set [OF Cons.prems]] show ?case
    by (simp add: dict_merge_Cons)
qed

lemma map_of_rev_distinct:
  assumes "distinct (map fst e)" "(k, v) \<in> set e"
  shows "map_of (rev e) k = Some v"
proof -
  from assms(1) have "distinct (map fst (rev e))" by (simp add: rev_map [symmetric])
  moreover from assms(2) have "(k, v) \<in> set (rev e)" by simp
  ultimately show ?thesis by (rule map_of_is_SomeI)
qed

lemma map_of_Str_keys:
  "map_of (map (\<lambda>(key, val). (Str (name val), key)) xs) (Str n)
     = map_of (map (\<lambda>(key, val). (name val, key)) xs) n"
  by (induction xs) auto

section \<open>The claims\<close>

text \<open>
  C1. The spec has replay dispatch every line of the log without appending it back, so
  that the log file and \<open>log_length\<close> are after replay what they were before. The code calls
  \<open>self._parse_command(jdata)\<close> with \<open>read_from_log\<close> left at \<open>False\<close>: replaying a log whose
  one line is an \<open>add_client\<close> command writes that line a second time and counts it.
\<close>

theorem load_from_log_appends_again:
  "log_file (load_from_log rnd
       (s\<lparr>log_file := [Entry (request ''add_client'' c)], log_length := 0\<rparr>))
     = [Entry (request ''add_client'' c), Entry (request ''add_client'' c)]
   \<and> log_length (load_from_log rnd
       (s\<lparr>log_file := [Entry (request ''add_client'' c)], log_length := 0\<rparr>))
     = 1"
  by (simp add: load_from_log_def parse_command_add_client append_log_def Let_def)

text \<open>
  C2. The spec has a command logged if and only if it is engine-mutating, so that a
  \<open>get_room\<close> request and a request the engine rejects are not logged. On a server just
  started, a \<open>get_room\<close> request is written to the log, and so is an \<open>up\<close> request for a
  client that is not in the room, which the engine answers with an error.
\<close>

theorem get_room_and_rejected_logged:
  "log_file (snd (parse_command (0, 0) (request ''get_room'' (Str ''a'')) False
       (new_server 0 0 0 [] Missing Missing)))
     = [Entry (request ''get_room'' (Str ''a''))]
   \<and> fst (parse_command (0, 0) (request ''up'' (Str ''a'')) False
       (new_server 0 0 0 [] Missing Missing))
     = Inr (Error ''client not in room'')
   \<and> log_file (snd (parse_command (0, 0) (request ''up'' (Str ''a'')) False
       (new_server 0 0 0 [] Missing Missing)))
     = [Entry (request ''up'' (Str ''a''))]"
proof -
  have l: "log_length (new_server 0 0 0 [] Missing Missing) < 100"
    "log_file (new_server 0 0 0 [] Missing Missing) = []"
    by (simp_all add: new_server_def)
  show ?thesis
    by (simp add: parse_command_get_room_fresh parse_command_up_fresh count_error_frame
        append_log_files(2) [OF l(1)] l(2))
qed

text \<open>
  C2, as the code has it. For every incoming command processed by a room server, a line is
  written to the log if and only if the command has a \<open>method\<close> and a \<open>client\<close>, the method
  is one of the engine's commands and its handler returns a response, whatever the
  response says: \<open>get_room\<close> requests and requests answered with an error are logged.
  A malformed request, a request whose method is unknown and a request whose handler
  raises write nothing. The line written is the command itself.
\<close>

theorem logged_iff_handler_returns:
  assumes "parse_command draws cmd False s = (r, s')"
  shows "logged_lines s s' =
     (if \<exists>m c resp. dict_get cmd ''method'' = Some (Str m) \<and> m \<in> set command_map_keys
            \<and> dict_get cmd ''client'' = Some c \<and> r = Inr resp
      then [Entry cmd] else [])"
proof (cases "\<exists>m c. dict_get cmd ''method'' = Some (Str m) \<and> m \<in> set command_map_keys
              \<and> dict_get cmd ''client'' = Some c")
  case False
  from parse_command_refused [OF False, of draws False s] assms
  have "io s' = io s" by (auto simp: count_error_frame)
  with False show ?thesis by (auto simp: logged_lines_def)
next
  case True
  then obtain m c where k: "dict_get cmd ''method'' = Some (Str m)" "m \<in> set command_map_keys"
    "dict_get cmd ''client'' = Some c" by blast
  let ?s1 = "note_broadcast_addr cmd c s"
  obtain r' g where d: "dispatch draws m c ?s1 = (r', g)" by (cases "dispatch draws m c ?s1")
  show ?thesis
  proof (cases r')
    case (Inl e)
    with d assms parse_command_raised [OF k, of draws s e g False]
    have "r = Inl e" "io s' = io s" by (auto simp: note_broadcast_addr_frame)
    then show ?thesis by (simp add: logged_lines_def)
  next
    case (Inr resp)
    with d assms parse_command_dispatched [OF k, of draws s resp g]
    have r: "r = Inr resp"
      and s': "s' = count_error resp (append_log cmd (?s1\<lparr>engine := g\<rparr>))" by auto
    have "logged_lines s s' = [Entry cmd]"
      by (auto simp: s' logged_lines_def count_error_frame append_log_io note_broadcast_addr_frame)
    with r k show ?thesis by auto
  qed
qed

theorem logged_iff_handler_returns_witness:
  "parse_command (0, 0) (request ''fly'' (Str ''a'')) False (new_server 0 0 0 [] Missing Missing)
     = (Inr (Error (unknown_method (Str ''fly''))),
        count_error (Error (unknown_method (Str ''fly''))) (new_server 0 0 0 [] Missing Missing))
   \<and> logged_lines (new_server 0 0 0 [] Missing Missing)
        (count_error (Error (unknown_method (Str ''fly''))) (new_server 0 0 0 [] Missing Missing))
     = []
   \<and> logged_lines (new_server 0 0 0 [] Missing Missing)
        (snd (parse_command (0, 0) (request ''add_client'' (Str ''a'')) False
               (new_server 0 0 0 [] Missing Missing)))
     = [Entry (request ''add_client'' (Str ''a''))]"
proof -
  let ?s = "new_server 0 0 0 [] Missing Missing"
  have u: "''fly'' \<notin> set command_map_keys" by (simp add: command_map_keys_def)
  have k: "''add_client'' \<in> set command_map_keys" by (simp add: command_map_keys_def)
  have a: "parse_command (0, 0) (request ''fly'' (Str ''a'')) False ?s
     = (Inr (Error (unknown_method (Str ''fly''))),
        count_error (Error (unknown_method (Str ''fly''))) ?s)"
    by (rule parse_command_unknown [OF u])
  have b: "parse_command (0, 0) (request ''add_client'' (Str ''a'')) False ?s
     = (fst (add_client (Str ''a'') (engine ?s)),
        snd (parse_command (0, 0) (request ''add_client'' (Str ''a'')) False ?s))"
    by (simp add: parse_command_add_client)
  have c: "fst (add_client (Str ''a'') (engine ?s)) = Inr (Client_pos (Str ''a'') ''4:4'')"
    by (simp add: add_client_new new_server_def new_game_def dict_get_def)
  show ?thesis
    using a logged_iff_handler_returns [OF a] logged_iff_handler_returns [OF b] u k c
    by (simp add: request_def dict_get_def)
qed

text \<open>
  C3. The spec has \<open>interact\<close> return \<open>{msg: ...}\<close> and never raise, also for a client id
  that is not in the directory. The code reads \<open>self.clients[client]\<close> first: for an absent
  client it raises \<open>KeyError\<close>. It also raises \<open>TypeError\<close> when the clients sharing the cell
  have integer ids, which \<open>str.join\<close> does not take.
\<close>

theorem interact_absent_client_raises:
  "interact draws (Str ''ghost'') (new_game rx ry rt) = (Inl KeyError, new_game rx ry rt)
   \<and> fst (interact draws (Num 1) \<lparr>clients = [(Num 1, ''4:4''), (Num 2, ''4:4'')], room = []\<rparr>)
       = Inl TypeError"
  by (simp add: interact_def new_game_def dict_get_def collided_users_def)

text \<open>
  C4. The spec has a malformed checkpoint logged and ignored, never raising. A checkpoint
  of two lines of which one is not JSON makes \<open>json.loads\<close> raise \<open>JSONDecodeError\<close>, which
  \<open>_load_server\<close> does not catch: the constructor fails.
\<close>

theorem load_server_undecodable_raises:
  "load_server (s\<lparr>ckpt := Two_lines Undecodable c\<rparr>) = Inl JSONDecodeError
   \<and> load_server (s\<lparr>ckpt := Two_lines (Dict r) Undecodable\<rparr>) = Inl JSONDecodeError
   \<and> startup rx ry rt rnd log_on_disk (Two_lines Undecodable c) ckpt_new_on_disk
       = Inl JSONDecodeError"
  by (simp add: load_server_def read_ckpt_def startup_def new_server_def)

text \<open>
  C5. Starting from an engine with an empty directory, so that every client is one that
  \<open>add_client\<close> inserted, every finite sequence of \<open>add_client\<close>, \<open>up\<close>, \<open>down\<close>, \<open>left\<close>
  and \<open>right\<close> commands runs without an exception, and afterwards the position of every
  client reads as \<open>(x, y)\<close> with \<open>0 \<le> x \<le> 8\<close> and \<open>0 \<le> y \<le> 8\<close>.
\<close>

theorem positions_stay_in_room:
  assumes "clients g = []"
    and "\<forall>(m, c) \<in> set cmds. m \<in> {''add_client'', ''up'', ''down'', ''left'', ''right''}"
  shows "\<exists>g'. run_commands draws cmds g = Inr g' \<and>
           (\<forall>(c, pos) \<in> set (clients g').
              \<exists>x y. parse_pos pos = Inr (x, y) \<and> 0 \<le> x \<and> x \<le> 8 \<and> 0 \<le> y \<and> y \<le> 8)"
proof -
  from assms(1) have "in_room g" by (simp add: in_room_def)
  from in_room_run [OF this assms(2), of draws] obtain g' where
    r: "run_commands draws cmds g = Inr g'" and i: "in_room g'" by blast
  have "\<exists>x y. parse_pos pos = Inr (x, y) \<and> 0 \<le> x \<and> x \<le> 8 \<and> 0 \<le> y \<and> y \<le> 8"
    if "(c, pos) \<in> set (clients g')" for c pos
    using in_room_member [OF i that] by blast
  with r show ?thesis by blast
qed

theorem positions_stay_in_room_witness:
  "clients (new_game 0 0 0) = []
   \<and> list_all (\<lambda>(m, c). m \<in> {''add_client'', ''up'', ''down'', ''left'', ''right''})
        [(''add_client'', Str ''a''), (''left'', Str ''a''), (''up'', Str ''a'')]
   \<and> map_sum id clients
        (run_commands (0, 0) [(''add_client'', Str ''a''), (''left'', Str ''a''), (''up'', Str ''a'')]
           (new_game 0 0 0)) = Inr [(Str ''a'', ''3:5'')]
   \<and> parse_pos ''3:5'' = Inr (3, 5)"
proof -
  let ?cmds = "[(''add_client'', Str ''a''), (''left'', Str ''a''), (''up'', Str ''a'')]"
  have a: "clients (new_game 0 0 0) = []" by (simp add: new_game_def)
  have b: "\<forall>(m, c) \<in> set ?cmds. m \<in> {''add_client'', ''up'', ''down'', ''left'', ''right''}"
    by simp
  have f: "fmt_pos 4 4 = ''4:4''" "fmt_pos 3 4 = ''3:4''" "fmt_pos 3 5 = ''3:5''"
    by (simp_all add: fmt_pos_def py_str_def str_nat.simps digit_char_def)
  have p: "parse_pos ''4:4'' = Inr (4, 4)" "parse_pos ''3:4'' = Inr (3, 4)"
    "parse_pos ''3:5'' = Inr (3, 5)"
    using parse_fmt_pos [of 4 4] parse_fmt_pos [of 3 4] parse_fmt_pos [of 3 5] by (simp_all add: f)
  have r: "run_commands (0, 0) ?cmds (new_game 0 0 0)
             = Inr ((new_game 0 0 0)\<lparr>clients := [(Str ''a'', ''3:5'')]\<rparr>)"
    by (simp add: command_map_def add_client_def left_def up_def move_def dict_get_def a f p
        room_dimension_def Let_def)
  from positions_stay_in_room [OF a b, of "(0, 0)"] r p(3) a show ?thesis
    by simp
qed

text \<open>
  C6. For a client standing on a cell that holds an item, \<open>interact\<close> answers the
  \<open>conflict_message\<close> and changes nothing when \<open>emptied_this_round\<close> is set; answers the
  \<open>empty_message\<close> and changes nothing when the flag is clear and \<open>uses\<close> is 0; and otherwise
  answers the \<open>use_message\<close>, lowers \<open>uses\<close> of that item by exactly 1, and sets
  \<open>emptied_this_round\<close> exactly when \<open>uses\<close> has become 0.
\<close>

theorem interact_on_item:
  assumes "dict_get (clients g) c = Some pos" and "dict_get (room g) pos = Some it"
  shows "interact draws c g =
     (if emptied_this_round it then (Inr (Msg (conflict_message it)), g)
      else if uses it = 0 then (Inr (Msg (empty_message it)), g)
      else (Inr (Msg (use_message it)),
            g\<lparr>room := dict_set pos
                 (it\<lparr>uses := uses it - 1, emptied_this_round := (uses it - 1 = 0)\<rparr>) (room g)\<rparr>))"
  using assms by (simp add: interact_def Let_def flag_already_clear)

theorem interact_on_item_witness:
  "dict_get (clients \<lparr>clients = [(Str ''a'', ''4:4'')], room = [(''4:4'', chest\<lparr>uses := 1\<rparr>)]\<rparr>)
      (Str ''a'') = Some ''4:4''
   \<and> dict_get (room \<lparr>clients = [(Str ''a'', ''4:4'')], room = [(''4:4'', chest\<lparr>uses := 1\<rparr>)]\<rparr>)
      ''4:4'' = Some (chest\<lparr>uses := 1\<rparr>)
   \<and> interact (0, 0) (Str ''a'')
        \<lparr>clients = [(Str ''a'', ''4:4'')], room = [(''4:4'', chest\<lparr>uses := 1\<rparr>)]\<rparr>
      = (Inr (Msg ''you put your hand in the box and get a surprise''),
         \<lparr>clients = [(Str ''a'', ''4:4'')],
          room = [(''4:4'', chest\<lparr>uses := 0, emptied_this_round := True\<rparr>)]\<rparr>)"
proof -
  let ?g = "\<lparr>clients = [(Str ''a'', ''4:4'')], room = [(''4:4'', chest\<lparr>uses := 1\<rparr>)]\<rparr>"
  have a: "dict_get (clients ?g) (Str ''a'') = Some ''4:4''"
    by (simp add: dict_get_def)
  have b: "dict_get (room ?g) ''4:4'' = Some (chest\<lparr>uses := 1\<rparr>)"
    by (simp add: dict_get_def)
  show ?thesis
    using a b interact_on_item [OF a b, of "(0, 0)"]
    by (simp add: chest_def)
qed

text \<open>
  C7. For a client in the room at \<open>x:y\<close>: \<open>left\<close> and \<open>right\<close> answer \<open>exit left\<close> and
  \<open>exit right\<close> exactly when the attempted x coordinate is outside \<open>[0, 8]\<close>, and
  \<open>move left\<close> and \<open>move right\<close> otherwise, the position being clamped in both cases; \<open>up\<close>
  and \<open>down\<close> always answer \<open>move up\<close> and \<open>move down\<close>, so they never signal an exit; and
  \<open>up\<close> at \<open>y = 8\<close> and \<open>down\<close> at \<open>y = 0\<close> leave the whole state as it was.
\<close>

theorem exit_only_left_right:
  assumes "dict_get (clients g) c = Some (fmt_pos x y)"
  shows "left c g =
           (Inr (Success (if x - 1 < 0 \<or> 8 < x - 1 then ''exit left'' else ''move left'')),
            g\<lparr>clients := dict_set c (fmt_pos (max 0 (min (x - 1) 8)) (max 0 (min y 8))) (clients g)\<rparr>)
       \<and> right c g =
           (Inr (Success (if x + 1 < 0 \<or> 8 < x + 1 then ''exit right'' else ''move right'')),
            g\<lparr>clients := dict_set c (fmt_pos (max 0 (min (x + 1) 8)) (max 0 (min y 8))) (clients g)\<rparr>)
       \<and> up c g =
           (Inr (Success ''move up''),
            g\<lparr>clients := dict_set c (fmt_pos (max 0 (min x 8)) (max 0 (min (y + 1) 8))) (clients g)\<rparr>)
       \<and> down c g =
           (Inr (Success ''move down''),
            g\<lparr>clients := dict_set c (fmt_pos (max 0 (min x 8)) (max 0 (min (y - 1) 8))) (clients g)\<rparr>)
       \<and> (0 \<le> x \<and> x \<le> 8 \<and> y = 8 \<longrightarrow> up c g = (Inr (Success ''move up''), g))
       \<and> (0 \<le> x \<and> x \<le> 8 \<and> y = 0 \<longrightarrow> down c g = (Inr (Success ''move down''), g))"
proof -
  have l: "left c g =
           (Inr (Success (if x - 1 < 0 \<or> 8 < x - 1 then ''exit left'' else ''move left'')),
            g\<lparr>clients := dict_set c (fmt_pos (max 0 (min (x - 1) 8)) (max 0 (min y 8))) (clients g)\<rparr>)"
    using assms move_written [OF assms, of "- 1" 0] by (auto simp: left_def)
  have r: "right c g =
           (Inr (Success (if x + 1 < 0 \<or> 8 < x + 1 then ''exit right'' else ''move right'')),
            g\<lparr>clients := dict_set c (fmt_pos (max 0 (min (x + 1) 8)) (max 0 (min y 8))) (clients g)\<rparr>)"
    using assms move_written [OF assms, of 1 0] by (auto simp: right_def)
  have u: "up c g =
           (Inr (Success ''move up''),
            g\<lparr>clients := dict_set c (fmt_pos (max 0 (min x 8)) (max 0 (min (y + 1) 8))) (clients g)\<rparr>)"
    using assms move_written [OF assms, of 0 1] by (simp add: up_def)
  have d: "down c g =
           (Inr (Success ''move down''),
            g\<lparr>clients := dict_set c (fmt_pos (max 0 (min x 8)) (max 0 (min (y - 1) 8))) (clients g)\<rparr>)"
    using assms move_written [OF assms, of 0 "- 1"] by (simp add: down_def)
  have u8: "up c g = (Inr (Success ''move up''), g)" if "0 \<le> x \<and> x \<le> 8 \<and> y = 8"
    using that u assms by (simp add: dict_set_same max_def min_def)
  have d0: "down c g = (Inr (Success ''move down''), g)" if "0 \<le> x \<and> x \<le> 8 \<and> y = 0"
    using that d assms by (simp add: dict_set_same max_def min_def)
  from l r u d u8 d0 show ?thesis by blast
qed

theorem exit_only_left_right_witness:
  "dict_get (clients \<lparr>clients = [(Str ''a'', ''0:8'')], room = []\<rparr>) (Str ''a'') = Some (fmt_pos 0 8)
   \<and> left (Str ''a'') \<lparr>clients = [(Str ''a'', ''0:8'')], room = []\<rparr>
       = (Inr (Success ''exit left''), \<lparr>clients = [(Str ''a'', ''0:8'')], room = []\<rparr>)
   \<and> right (Str ''a'') \<lparr>clients = [(Str ''a'', ''0:8'')], room = []\<rparr>
       = (Inr (Success ''move right''), \<lparr>clients = [(Str ''a'', ''1:8'')], room = []\<rparr>)
   \<and> up (Str ''a'') \<lparr>clients = [(Str ''a'', ''0:8'')], room = []\<rparr>
       = (Inr (Success ''move up''), \<lparr>clients = [(Str ''a'', ''0:8'')], room = []\<rparr>)"
proof -
  let ?g = "\<lparr>clients = [(Str ''a'', ''0:8'')], room = []\<rparr>"
  have a: "dict_get (clients ?g) (Str ''a'') = Some (fmt_pos 0 8)"
    by (simp add: dict_get_def fmt_0_8)
  have b: "fmt_pos 1 8 = ''1:8''"
    by (simp add: fmt_pos_def py_str_def str_nat.simps digit_char_def)
  show ?thesis
    using a exit_only_left_right [OF a]
    by (simp add: fmt_0_8 b)
qed

text \<open>
  C8. When a command is appended to the log and \<open>log_length\<close> thereby exceeds 100, the
  server writes exactly one checkpoint, after the append: two lines, the item map and the
  client-position map of the engine as the command left it, written to \<open>name.ckpt.new\<close>,
  which then replaces \<open>name.ckpt\<close>; after that the log is truncated to no lines and
  \<open>log_length\<close> is 0. When \<open>log_length\<close> does not exceed 100 after the append, no
  checkpoint is written and the log keeps the line.
\<close>

theorem checkpoint_when_log_exceeds_100:
  assumes "parse_command draws cmd False s = (Inr resp, s')"
    and "dict_get cmd ''method'' = Some (Str m)" and "m \<in> set command_map_keys"
    and "dict_get cmd ''client'' = Some c"
  shows "io s' = io s @ [Log_write (Entry cmd), Log_flush, Log_fsync] @
           (if 100 \<le> log_length s
            then [Ckpt_new_write (Two_lines (Dict (room (engine s')))
                                  (Dict (dumped_clients (clients (engine s'))))),
                  Ckpt_replace, Log_truncate]
            else [])
       \<and> (if 100 \<le> log_length s
          then ckpt s' = Two_lines (Dict (room (engine s')))
                           (Dict (dumped_clients (clients (engine s'))))
               \<and> ckpt_new s' = Missing \<and> log_file s' = [] \<and> log_length s' = 0
          else ckpt s' = ckpt s \<and> ckpt_new s' = ckpt_new s
               \<and> log_file s' = log_file s @ [Entry cmd] \<and> log_length s' = log_length s + 1)"
proof -
  let ?s1 = "note_broadcast_addr cmd c s"
  obtain r g where d: "dispatch draws m c ?s1 = (r, g)" by (cases "dispatch draws m c ?s1")
  show ?thesis
  proof (cases r)
    case (Inl e)
    with d assms parse_command_raised [OF assms(2,3,4), of draws s e g False] show ?thesis
      by simp
  next
    case (Inr resp')
    let ?s2 = "?s1\<lparr>engine := g\<rparr>"
    from Inr d assms parse_command_dispatched [OF assms(2,3,4), of draws s resp' g]
    have s': "s' = count_error resp (append_log cmd ?s2)" by auto
    have l: "log_length ?s2 = log_length s" "io ?s2 = io s" "ckpt ?s2 = ckpt s"
      "ckpt_new ?s2 = ckpt_new s" "log_file ?s2 = log_file s" "engine ?s2 = g"
      by (simp_all add: note_broadcast_addr_frame)
    have e: "engine s' = g"
      by (simp add: s' count_error_frame append_log_files(3))
    show ?thesis
    proof (cases "100 \<le> log_length s")
      case True
      then have "100 \<le> log_length ?s2" by (simp add: l)
      from append_log_files(1) [OF this, of cmd] True show ?thesis
        by (simp add: s' count_error_frame append_log_io append_log_files(3) l)
    next
      case False
      then have "log_length ?s2 < 100" by (simp add: l)
      from append_log_files(2) [OF this, of cmd] False show ?thesis
        by (simp add: s' count_error_frame append_log_io l)
    qed
  qed
qed

theorem checkpoint_when_log_exceeds_100_witness:
  "log_length ((new_server 0 0 0 [] Missing Missing)
       \<lparr>log_file := replicate 100 Junk, log_length := 100\<rparr>) = 100
   \<and> io (snd (parse_command (0, 0) (request ''add_client'' (Num 7)) False
        ((new_server 0 0 0 [] Missing Missing)\<lparr>log_file := replicate 100 Junk, log_length := 100\<rparr>)))
     = [Log_write (Entry (request ''add_client'' (Num 7))), Log_flush, Log_fsync,
        Ckpt_new_write (Two_lines (Dict (room (new_game 0 0 0))) (Dict [(Str ''7'', ''4:4'')])),
        Ckpt_replace, Log_truncate]
   \<and> ckpt (snd (parse_command (0, 0) (request ''add_client'' (Num 7)) False
        ((new_server 0 0 0 [] Missing Missing)\<lparr>log_file := replicate 100 Junk, log_length := 100\<rparr>)))
     = Two_lines (Dict (room (new_game 0 0 0))) (Dict [(Str ''7'', ''4:4'')])
   \<and> log_file (snd (parse_command (0, 0) (request ''add_client'' (Num 7)) False
        ((new_server 0 0 0 [] Missing Missing)\<lparr>log_file := replicate 100 Junk, log_length := 100\<rparr>)))
     = []
   \<and> log_length (snd (parse_command (0, 0) (request ''add_client'' (Num 7)) False
        ((new_server 0 0 0 [] Missing Missing)\<lparr>log_file := replicate 100 Junk, log_length := 100\<rparr>)))
     = 0"
proof -
  let ?s = "(new_server 0 0 0 [] Missing Missing)\<lparr>log_file := replicate 100 Junk, log_length := 100\<rparr>"
  let ?cmd = "request ''add_client'' (Num 7)"
  let ?s' = "snd (parse_command (0, 0) ?cmd False ?s)"
  have g: "engine ?s = new_game 0 0 0" "io ?s = []" "log_length ?s = 100"
    by (simp_all add: new_server_def)
  have n: "dict_get (clients (new_game 0 0 0)) (Num 7) = None"
    by (simp add: new_game_def dict_get_def)
  have a: "parse_command (0, 0) ?cmd False ?s = (Inr (Client_pos (Num 7) ''4:4''), ?s')"
    by (simp add: parse_command_add_client add_client_new [OF n] g)
  have e: "engine ?s' = (new_game 0 0 0)\<lparr>clients := [(Num 7, ''4:4'')]\<rparr>"
    using clients_new_game [of 0 0 0]
    by (simp add: parse_command_add_client add_client_new [OF n] g append_log_files(3))
  have m: "dict_get ?cmd ''method'' = Some (Str ''add_client'')"
    "''add_client'' \<in> set command_map_keys" "dict_get ?cmd ''client'' = Some (Num 7)"
    by (simp_all add: request_def dict_get_def command_map_keys_def)
  show ?thesis
    using checkpoint_when_log_exceeds_100 [OF a m] g
    by (simp add: e dumped_one)
qed

text \<open>
  C9. \<open>add_client\<close> is idempotent: for an id not yet in the directory it appends the id at
  the room centre \<open>4:4\<close> and answers \<open>{client_id, pos}\<close> with that position, and a second call
  right after answers the same and changes nothing; for an id in the directory, wherever
  the client stands, it answers \<open>{client_id, pos}\<close> with the current position and leaves the
  whole engine state (directory and room) as it was.
\<close>

theorem add_client_idempotent:
  "(dict_get (clients g) c = None \<longrightarrow>
      add_client c g = (Inr (Client_pos c ''4:4''), g\<lparr>clients := clients g @ [(c, ''4:4'')]\<rparr>)
      \<and> add_client c (snd (add_client c g)) = (Inr (Client_pos c ''4:4''), snd (add_client c g)))
   \<and> (\<forall>pos. dict_get (clients g) c = Some pos \<longrightarrow> add_client c g = (Inr (Client_pos c pos), g))"
proof (intro conjI impI allI)
  assume n: "dict_get (clients g) c = None"
  show new: "add_client c g = (Inr (Client_pos c ''4:4''), g\<lparr>clients := clients g @ [(c, ''4:4'')]\<rparr>)"
    by (rule add_client_new [OF n])
  have "dict_get (clients (snd (add_client c g))) c = Some ''4:4''"
    by (simp add: new dict_get_append_new [OF n])
  then show "add_client c (snd (add_client c g)) = (Inr (Client_pos c ''4:4''), snd (add_client c g))"
    by (rule add_client_old)
next
  fix pos assume "dict_get (clients g) c = Some pos"
  then show "add_client c g = (Inr (Client_pos c pos), g)" by (rule add_client_old)
qed

theorem add_client_idempotent_witness:
  "dict_get (clients (new_game 0 0 0)) (Num 7) = None
   \<and> add_client (Num 7) (new_game 0 0 0) =
       (Inr (Client_pos (Num 7) ''4:4''),
        (new_game 0 0 0)\<lparr>clients := clients (new_game 0 0 0) @ [(Num 7, ''4:4'')]\<rparr>)
   \<and> dict_get (clients \<lparr>clients = [(Num 7, ''5:4'')], room = []\<rparr>) (Num 7) = Some ''5:4''
   \<and> add_client (Num 7) \<lparr>clients = [(Num 7, ''5:4'')], room = []\<rparr> =
       (Inr (Client_pos (Num 7) ''5:4''), \<lparr>clients = [(Num 7, ''5:4'')], room = []\<rparr>)"
proof -
  have a: "dict_get (clients (new_game 0 0 0)) (Num 7) = None"
    by (simp add: new_game_def dict_get_def)
  have b: "dict_get (clients \<lparr>clients = [(Num 7, ''5:4'')], room = []\<rparr>) (Num 7) = Some ''5:4''"
    by (simp add: dict_get_def)
  show ?thesis
    using a b add_client_idempotent [of "new_game 0 0 0" "Num 7"]
      add_client_idempotent [of "\<lparr>clients = [(Num 7, ''5:4'')], room = []\<rparr>" "Num 7"]
    by simp
qed

text \<open>
  C10. \<open>get_room\<close> keys the items by name and stores the connected clients over them, and
  leaves the engine as it was. The map it returns holds each key once, so one position only
  for a name that several cells share (that of the last such cell, unless a client has the
  name as its id); and every connected client is in the map with its own position, also
  when its id is the name of an item, whose entry it replaces.
\<close>

theorem get_room_merges:
  assumes "distinct (map fst connected)"
  shows "\<exists>m. get_room connected g = (Inr (Room m), g)
     \<and> distinct (map fst m)
     \<and> (\<forall>(c, pos) \<in> set connected. dict_get m c = Some pos)
     \<and> (\<forall>n. Str n \<notin> fst ` set connected \<longrightarrow>
          dict_get m (Str n) = map_of (rev (map (\<lambda>(key, val). (name val, key)) (room g))) n)"
proof -
  let ?items = "map (\<lambda>(key, val). (Str (name val), key)) (room g)"
  let ?m = "dict_merge (room_items_of (room g)) connected"
  have "distinct (map fst (room_items_of (room g)))"
    unfolding room_items_of_def by (rule distinct_dict_merge) simp
  then have d: "distinct (map fst ?m)" by (rule distinct_dict_merge)
  have c: "dict_get ?m c = Some pos" if "(c, pos) \<in> set connected" for c pos
    using map_of_rev_distinct [OF assms that] by (simp add: dict_get_merge)
  have n: "dict_get ?m (Str n) = map_of (rev (map (\<lambda>(key, val). (name val, key)) (room g))) n"
    if "Str n \<notin> fst ` set connected" for n
  proof -
    from that have "Str n \<notin> fst ` set (rev connected)" by simp
    then have "map_of (rev connected) (Str n) = None" by (simp add: map_of_eq_None_iff)
    then have "dict_get ?m (Str n) = dict_get (room_items_of (room g)) (Str n)"
      by (simp add: dict_get_merge)
    also have "\<dots> = map_of (rev ?items) (Str n)"
      using dict_get_merge [of "[]" ?items "Str n"]
      by (simp add: room_items_of_def dict_get_def split: option.splits)
    finally show ?thesis by (simp add: rev_map map_of_Str_keys)
  qed
  have "get_room connected g = (Inr (Room ?m), g)" by (simp add: get_room_def)
  with d c n show ?thesis by blast
qed

theorem get_room_merges_witness:
  "distinct (map fst [(Str ''chest'', ''4:4'')])
   \<and> get_room [(Str ''chest'', ''4:4'')]
        \<lparr>clients = [(Str ''chest'', ''4:4'')], room = [(''0:0'', chest), (''1:1'', chest)]\<rparr>
      = (Inr (Room [(Str ''chest'', ''4:4'')]),
         \<lparr>clients = [(Str ''chest'', ''4:4'')], room = [(''0:0'', chest), (''1:1'', chest)]\<rparr>)
   \<and> get_room []
        \<lparr>clients = [(Str ''chest'', ''4:4'')], room = [(''0:0'', chest), (''1:1'', chest)]\<rparr>
      = (Inr (Room [(Str ''chest'', ''1:1'')]),
         \<lparr>clients = [(Str ''chest'', ''4:4'')], room = [(''0:0'', chest), (''1:1'', chest)]\<rparr>)"
proof -
  have a: "distinct (map fst [(Str ''chest'', ''4:4'')])" by simp
  have b: "distinct (map fst ([] :: (ident \<times> string) list))" by simp
  show ?thesis
    using a get_room_merges [OF a, of "\<lparr>clients = [(Str ''chest'', ''4:4'')], room = [(''0:0'', chest), (''1:1'', chest)]\<rparr>"]
      get_room_merges [OF b, of "\<lparr>clients = [(Str ''chest'', ''4:4'')], room = [(''0:0'', chest), (''1:1'', chest)]\<rparr>"]
    by (simp add: get_room_def room_items_of_def dict_merge_def chest_def)
qed

end
